theory Spec2Isabelle
  imports Complex_Main "HOL-Library.Sublist" "HOL-Library.Word"
begin

section \<open>The dashboard's data model\<close>

text \<open>
  The dashboard is a Node.js program: it spawns project and tunnel processes, probes them
  with signals, keeps their pids in \<^verbatim>\<open>state.json\<close> and writes log files. The embedding
  below follows the source files function by function. Everything outside the JavaScript
  functions themselves (the state file on disk, the log directory, the process table of
  the operating system, the clock) is a field of the record \<open>world\<close>, which every
  operation takes and returns; an exception is the left summand of the result.
\<close>

subsection \<open>JavaScript values\<close>

text \<open>
  A property of a runtime-state object is absent (\<^verbatim>\<open>undefined\<close>), \<^verbatim>\<open>null\<close> or a value.
  \<^verbatim>\<open>JSON.stringify\<close> drops absent properties and keeps \<^verbatim>\<open>null\<close>, so both survive a
  round trip through the state file as they are.
\<close>

datatype 'a jsfield = Undefined | Null | Val 'a

text \<open>Truthiness (\<^verbatim>\<open>!x\<close>, \<^verbatim>\<open>x || y\<close>): a number is falsy when it is 0, a string when it is empty.\<close>

fun truthy_num :: "int jsfield \<Rightarrow> bool" where
  "truthy_num (Val n) = (n \<noteq> 0)"
| "truthy_num _ = False"

fun truthy_str :: "string jsfield \<Rightarrow> bool" where
  "truthy_str (Val s) = (s \<noteq> [])"
| "truthy_str _ = False"

text \<open>\<^verbatim>\<open>x || null\<close>\<close>

definition num_or_null :: "int jsfield \<Rightarrow> int jsfield" where
  "num_or_null x = (if truthy_num x then x else Null)"

definition str_or_null :: "string jsfield \<Rightarrow> string jsfield" where
  "str_or_null x = (if truthy_str x then x else Null)"


subsection \<open>Decimal rendering of numbers in template literals\<close>

definition digit_char :: "nat \<Rightarrow> char" where
  "digit_char d = ''0123456789'' ! d"

fun show_nat :: "nat \<Rightarrow> string" where
  "show_nat n = (if n < 10 then [digit_char n] else show_nat (n div 10) @ [digit_char (n mod 10)])"

declare show_nat.simps [simp del]

definition show_int :: "int \<Rightarrow> string" where
  "show_int i = (if i < 0 then CHR ''-'' # show_nat (nat (- i)) else show_nat (nat i))"

fun show_num_field :: "int jsfield \<Rightarrow> string" where
  "show_num_field Undefined = ''undefined''"
| "show_num_field Null = ''null''"
| "show_num_field (Val n) = show_int n"

subsection \<open>Runtime state and the state document (stateService.js)\<close>

text \<open>
  One runtime-state object per project: \<^verbatim>\<open>{ pid, startedAt, tunnelPid, tunnelStartedAt,
  tunnelUrl, tunnelUrlDiscoveredAt }\<close>. The fields have the types of the values the program
  itself writes: the pids (\<^verbatim>\<open>child.pid\<close>) and the timestamps (\<^verbatim>\<open>Date.now()\<close>) are
  integers, the URL is a string. The object spread \<^verbatim>\<open>{ ...old, pid: null }\<close> is a record
  update.
\<close>

record pstate =
  pid :: "int jsfield"
  startedAt :: "int jsfield"
  tunnelPid :: "int jsfield"
  tunnelStartedAt :: "int jsfield"
  tunnelUrl :: "string jsfield"
  tunnelUrlDiscoveredAt :: "int jsfield"

text \<open>The empty object \<^verbatim>\<open>{}\<close>.\<close>

definition empty_pstate :: pstate where
  "empty_pstate = \<lparr> pid = Undefined, startedAt = Undefined, tunnelPid = Undefined,
     tunnelStartedAt = Undefined, tunnelUrl = Undefined, tunnelUrlDiscoveredAt = Undefined \<rparr>"

text \<open>
  The state document \<^verbatim>\<open>{ projects: { <id>: {...} } }\<close>; the \<^verbatim>\<open>projects\<close> key itself may be
  missing.
\<close>

record state_doc =
  projects :: "(string \<rightharpoonup> pstate) option"

text \<open>
  What \<^verbatim>\<open>fs.readFileSync(STATE_PATH)\<close> followed by \<^verbatim>\<open>JSON.parse\<close> meets: the read fails
  with a system error code (\<^verbatim>\<open>ENOENT\<close> when the file is absent), the text is not JSON
  (the parser's message), or the file holds a state document.
\<close>

datatype disk = ReadFails string | BadJson string | Doc state_doc

abbreviation NoFile :: disk where
  "NoFile \<equiv> ReadFails ''ENOENT''"

subsection \<open>Errors, system calls and the world\<close>

datatype error =
    Error string             \<comment> \<open>\<^verbatim>\<open>new Error(message)\<close>\<close>
  | SystemError string string  \<comment> \<open>an error of the runtime with its \<^verbatim>\<open>code\<close> and message\<close>
  | SyntaxError string       \<comment> \<open>thrown by \<^verbatim>\<open>JSON.parse\<close>\<close>

fun message :: "error \<Rightarrow> string" where
  "message (Error m) = m"
| "message (SystemError c m) = m"
| "message (SyntaxError m) = m"

text \<open>\<^verbatim>\<open>error.code\<close>\<close>

fun code :: "error \<Rightarrow> string option" where
  "code (SystemError c m) = Some c"
| "code _ = None"

datatype signal = Sig0 | SIGTERM

text \<open>
  The calls that leave the process: signals sent, processes spawned, state files written.
  The world records them in \<open>trace\<close>. Every function of the program runs to completion
  without interleaving, so within one call the clock and the process table are read from
  the world the call started in.
\<close>

datatype event =
    KillCall int signal
  | SpawnCall string "string list" "string option"   \<comment> \<open>command, arguments, working directory\<close>
  | SaveCall state_doc

record world =
  state_file :: disk                  \<comment> \<open>\<^verbatim>\<open>state.json\<close>\<close>
  state_writable :: bool              \<comment> \<open>whether \<^verbatim>\<open>fs.writeFileSync(STATE_PATH, ...)\<close> succeeds\<close>
  logs_dir :: bool                    \<comment> \<open>whether the log directory exists\<close>
  logs :: "string \<rightharpoonup> string"    \<comment> \<open>the files of the log directory, by file name\<close>
  logs_writable :: bool               \<comment> \<open>whether the log directory can be created and appended to\<close>
  signalable :: "int set"             \<comment> \<open>the targets \<^verbatim>\<open>process.kill\<close> can deliver to: pids, and negated pids of process groups\<close>
  now :: int                          \<comment> \<open>\<^verbatim>\<open>Date.now()\<close>\<close>
  now_iso :: string                   \<comment> \<open>\<^verbatim>\<open>new Date().toISOString()\<close>\<close>
  spawn_pid :: "int option"           \<comment> \<open>the pid the next \<^verbatim>\<open>spawn\<close> gives its child, if the spawn succeeds\<close>
  resolve_dir :: "string \<Rightarrow> string"  \<comment> \<open>\<^verbatim>\<open>path.resolve(config.dirs.root, dir)\<close>\<close>
  trace :: "event list"               \<comment> \<open>the calls made so far, oldest first\<close>

type_synonym 'a io = "world \<Rightarrow> (error + 'a) \<times> world"

definition io_ret :: "'a \<Rightarrow> 'a io" where
  "io_ret x w = (Inr x, w)"

definition io_throw :: "error \<Rightarrow> 'a io" where
  "io_throw e w = (Inl e, w)"

text \<open>Sequencing: an exception skips the rest, the world keeps what was done before it.\<close>

definition io_bind :: "'a io \<Rightarrow> ('a \<Rightarrow> 'b io) \<Rightarrow> 'b io" where
  "io_bind m f w = (case m w of (Inl e, w') \<Rightarrow> (Inl e, w') | (Inr x, w') \<Rightarrow> f x w')"

text \<open>\<^verbatim>\<open>try { m } catch (e) { h(e) }\<close>\<close>

definition io_catch :: "'a io \<Rightarrow> (error \<Rightarrow> 'a io) \<Rightarrow> 'a io" where
  "io_catch m h w = (case m w of (Inl e, w') \<Rightarrow> h e w' | (Inr x, w') \<Rightarrow> (Inr x, w'))"

text \<open>
  \<^verbatim>\<open>process.kill(target, signal)\<close>: the call is recorded; it returns when the target exists
  and may be signalled, and throws otherwise. Delivery is asynchronous, so the call itself
  does not change which targets exist.
\<close>

definition process_kill :: "int \<Rightarrow> signal \<Rightarrow> unit io" where
  "process_kill target sig w =
     (let w' = w\<lparr>trace := trace w @ [KillCall target sig]\<rparr>
      in if target \<in> signalable w then (Inr (), w')
         else (Inl (SystemError ''ESRCH'' ''kill ESRCH''), w'))"

subsection \<open>stateService.js\<close>

text \<open>The body of the \<^verbatim>\<open>try\<close> in \<open>loadState\<close>: read the file and parse it.\<close>

definition read_state_file :: "state_doc io" where
  "read_state_file w =
     (case state_file w of
        Doc d \<Rightarrow> (Inr d, w)
      | ReadFails c \<Rightarrow> (Inl (SystemError c c), w)
      | BadJson m \<Rightarrow> (Inl (SyntaxError m), w))"

definition loadState :: "state_doc io" where
  "loadState =
     io_catch read_state_file (\<lambda>err.
       if code err = Some ''ENOENT'' then io_ret \<lparr>projects = Some Map.empty\<rparr>
       else case err of
              SyntaxError m \<Rightarrow> io_throw (Error (''Invalid JSON in state file: '' @ m))
            | _ \<Rightarrow> io_throw err)"

definition saveState :: "state_doc \<Rightarrow> unit io" where
  "saveState st w =
     (let w' = w\<lparr>trace := trace w @ [SaveCall st]\<rparr>
      in if state_writable w then (Inr (), w'\<lparr>state_file := Doc st\<rparr>)
         else (Inl (Error (''Failed to save state: '' @ ''EACCES'')), w'))"

text \<open>
  \<open>getProjectState\<close> fills the missing \<^verbatim>\<open>projects\<close> map and the missing entry in the object it
  has just parsed, and returns the entry; nothing is written back.
\<close>

definition projects_or_empty :: "state_doc \<Rightarrow> (string \<rightharpoonup> pstate)" where
  "projects_or_empty st = (case projects st of None \<Rightarrow> Map.empty | Some m \<Rightarrow> m)"

definition project_entry :: "state_doc \<Rightarrow> string \<Rightarrow> pstate" where
  "project_entry st projectId =
     (case projects_or_empty st projectId of None \<Rightarrow> empty_pstate | Some ps \<Rightarrow> ps)"

definition getProjectState :: "string \<Rightarrow> pstate io" where
  "getProjectState projectId = io_bind loadState (\<lambda>st. io_ret (project_entry st projectId))"

text \<open>
  \<^verbatim>\<open>object[key] = value\<close> on an object that \<^verbatim>\<open>JSON.parse\<close> built. The assignment creates or
  updates the own property \<open>key\<close>, with one exception: for the key \<^verbatim>\<open>__proto__\<close>, when the
  object has no own property of that name, it reaches the setter inherited from
  \<^verbatim>\<open>Object.prototype\<close>, which replaces the prototype and adds no property, so that
  \<^verbatim>\<open>JSON.stringify\<close> writes the object without it. (Reading \<^verbatim>\<open>object["__proto__"]\<close> in that
  case gives \<^verbatim>\<open>Object.prototype\<close>, which has none of the six fields: \<open>project_entry\<close> is the
  empty object there as well.)
\<close>

definition assign_property :: "(string \<rightharpoonup> 'v) \<Rightarrow> string \<Rightarrow> 'v \<Rightarrow> (string \<rightharpoonup> 'v)" where
  "assign_property object key v =
     (if key = ''__proto__'' \<and> object key = None then object else object(key \<mapsto> v))"

definition setProjectState :: "string \<Rightarrow> pstate \<Rightarrow> unit io" where
  "setProjectState projectId stateObject =
     io_bind loadState (\<lambda>st.
       saveState (st\<lparr>projects := Some (assign_property (projects_or_empty st) projectId stateObject)\<rparr>))"

subsection \<open>utils/logging.js\<close>

definition ensureLogDir :: "unit io" where
  "ensureLogDir w =
     (if logs_dir w then (Inr (), w)
      else if logs_writable w then (Inr (), w\<lparr>logs_dir := True\<rparr>)
      else (Inl (SystemError ''EACCES'' ''EACCES: permission denied, mkdir''), w))"

definition getLogFilePath :: "string \<Rightarrow> string \<Rightarrow> string" where
  "getLogFilePath projectId logType = projectId @ ''.'' @ logType @ ''.log''"

definition endsWith_newline :: "string \<Rightarrow> bool" where
  "endsWith_newline s = (s \<noteq> [] \<and> last s = CHR 0x0A)"

text \<open>\<^verbatim>\<open>fs.appendFileSync(logPath, content)\<close>: creates the file when it is absent.\<close>

definition appendFileSync :: "string \<Rightarrow> string \<Rightarrow> unit io" where
  "appendFileSync file content w =
     (if logs_writable w
      then (Inr (), w\<lparr>logs := (logs w)(file \<mapsto> (case logs w file of None \<Rightarrow> [] | Some old \<Rightarrow> old) @ content)\<rparr>)
      else (Inl (SystemError ''EACCES'' ''EACCES: permission denied, open''), w))"

definition log_content :: "string \<Rightarrow> string \<Rightarrow> string" where
  "log_content timestamp msg =
     (let line = ''['' @ timestamp @ ''] '' @ msg
      in if endsWith_newline line then line else line @ [CHR 0x0A])"

text \<open>The \<open>appendLog\<close> of utils/logging.js, which the lifecycle managers import: no argument check.\<close>

definition logging_appendLog :: "string \<Rightarrow> string \<Rightarrow> string \<Rightarrow> unit io" where
  "logging_appendLog projectId type msg =
     io_bind ensureLogDir (\<lambda>_. (\<lambda>w.
       appendFileSync (getLogFilePath projectId type) (log_content (now_iso w) msg) w))"

text \<open>The world after a log line has been appended: only the log directory has changed.\<close>

definition logged :: "string \<Rightarrow> string \<Rightarrow> string \<Rightarrow> world \<Rightarrow> world" where
  "logged projectId type msg w =
     w\<lparr>logs_dir := True,
       logs := (logs w)(getLogFilePath projectId type \<mapsto>
                 (case logs w (getLogFilePath projectId type) of None \<Rightarrow> [] | Some old \<Rightarrow> old)
                 @ log_content (now_iso w) msg)\<rparr>"

subsection \<open>projectLifecycle.js\<close>

text \<open>
  A project object as the lifecycle managers receive it; each property may be missing.
\<close>

record project =
  id_p :: "string option"
  name_p :: "string option"
  dir :: "string option"
  start :: "string option"
  port :: "int option"
  tunnelPort :: "int option"

definition isProcessAlive :: "int jsfield \<Rightarrow> bool io" where
  "isProcessAlive p =
     (if \<not> truthy_num p then io_ret False
      else case p of
             Val n \<Rightarrow> io_catch (io_bind (process_kill n Sig0) (\<lambda>_. io_ret True)) (\<lambda>_. io_ret False)
           | _ \<Rightarrow> io_ret False)"

text \<open>
  \<^verbatim>\<open>spawn(command, args, { cwd, shell: true, detached: true, ... })\<close>: the call is recorded
  and the child's pid returned; \<^verbatim>\<open>child.pid\<close> is \<^verbatim>\<open>undefined\<close> when the process could not be
  created. The \<^verbatim>\<open>data\<close> handlers that \<open>startProject\<close> attaches to the child only append its
  output to the log; they run after the call has returned and are not part of it.
\<close>

definition spawn :: "string \<Rightarrow> string list \<Rightarrow> string option \<Rightarrow> (int jsfield) io" where
  "spawn command args cwd w =
     (Inr (case spawn_pid w of None \<Rightarrow> Undefined | Some n \<Rightarrow> Val n),
      w\<lparr>trace := trace w @ [SpawnCall command args cwd]\<rparr>)"

definition startProject :: "project option \<Rightarrow> (int jsfield) io" where
  "startProject proj =
     (case proj of
        None \<Rightarrow> io_throw (Error ''Invalid project object: missing id, start command, or dir'')
      | Some p \<Rightarrow>
          (case (id_p p, start p, dir p) of
             (Some i, Some cmd, Some d) \<Rightarrow>
               if i = [] \<or> cmd = [] \<or> d = []
               then io_throw (Error ''Invalid project object: missing id, start command, or dir'')
               else
                 io_bind (getProjectState i) (\<lambda>projectState.
                 io_bind (isProcessAlive (pid projectState)) (\<lambda>alive.
                   if alive
                   then io_bind (logging_appendLog i ''app''
                                  (''Project already running with PID '' @ show_num_field (pid projectState)))
                          (\<lambda>_. io_ret (pid projectState))
                   else
                     io_bind (logging_appendLog i ''app'' (''START: '' @ cmd)) (\<lambda>_.
                     io_bind (\<lambda>w. spawn cmd [] (Some (resolve_dir w d)) w) (\<lambda>child_pid.
                     io_bind (getProjectState i) (\<lambda>cur.
                     io_bind (\<lambda>w. setProjectState i (cur\<lparr>pid := child_pid, startedAt := Val (now w)\<rparr>) w) (\<lambda>_.
                     io_bind (logging_appendLog i ''app''
                               (''Process started with PID '' @ show_num_field child_pid)) (\<lambda>_.
                     io_ret child_pid)))))))
           | _ \<Rightarrow> io_throw (Error ''Invalid project object: missing id, start command, or dir'')))"

text \<open>
  The inner \<^verbatim>\<open>try\<close> of \<open>stopProject\<close>: signal the process itself. \<open>killed\<close> is the
  variable of the source; it is set right after the signal is delivered, before the log
  line is written, and the \<^verbatim>\<open>catch\<close> also catches a failure of that log line.
\<close>

definition stop_fallback :: "string \<Rightarrow> string \<Rightarrow> string \<Rightarrow> string \<Rightarrow> int \<Rightarrow> bool \<Rightarrow> bool io" where
  "stop_fallback projectId type okMsg failMsg n killed w =
     (case process_kill n SIGTERM w of
        (Inl err, w1) \<Rightarrow>
          io_bind (logging_appendLog projectId type (failMsg @ message err)) (\<lambda>_. io_ret killed) w1
      | (Inr _, w1) \<Rightarrow>
          (case logging_appendLog projectId type okMsg w1 of
             (Inl err, w2) \<Rightarrow>
               io_bind (logging_appendLog projectId type (failMsg @ message err)) (\<lambda>_. io_ret True) w2
           | (Inr _, w2) \<Rightarrow> (Inr True, w2)))"

text \<open>The outer \<^verbatim>\<open>try\<close>: signal the process group (the negated pid) first.\<close>

definition stop_kill :: "string \<Rightarrow> string \<Rightarrow> string \<Rightarrow> string \<Rightarrow> string \<Rightarrow> int \<Rightarrow> bool io" where
  "stop_kill projectId type groupMsg okMsg failMsg n w =
     (case process_kill (- n) SIGTERM w of
        (Inl _, w1) \<Rightarrow> stop_fallback projectId type okMsg failMsg n False w1
      | (Inr _, w1) \<Rightarrow>
          (case logging_appendLog projectId type groupMsg w1 of
             (Inl _, w2) \<Rightarrow> stop_fallback projectId type okMsg failMsg n True w2
           | (Inr _, w2) \<Rightarrow> (Inr True, w2)))"

definition stopProject :: "project option \<Rightarrow> bool io" where
  "stopProject proj =
     (case proj of
        None \<Rightarrow> io_throw (Error ''Invalid project object: missing id'')
      | Some p \<Rightarrow>
          (case id_p p of
             None \<Rightarrow> io_throw (Error ''Invalid project object: missing id'')
           | Some i \<Rightarrow>
               if i = [] then io_throw (Error ''Invalid project object: missing id'')
               else
                 io_bind (getProjectState i) (\<lambda>projectState.
                   case pid projectState of
                     Val n \<Rightarrow>
                       if \<not> truthy_num (Val n)
                       then io_bind (logging_appendLog i ''app'' ''No running process to stop'')
                              (\<lambda>_. io_ret False)
                       else
                         io_bind (logging_appendLog i ''app''
                                   (''STOP: Killing process group for PID '' @ show_int n)) (\<lambda>_.
                         io_bind (stop_kill i ''app'' ''Process group killed (SIGTERM)''
                                   ''Process killed (SIGTERM)'' ''Failed to kill process: '' n) (\<lambda>killed.
                         io_bind (getProjectState i) (\<lambda>cur.
                         io_bind (setProjectState i (cur\<lparr>pid := Null, startedAt := Null\<rparr>)) (\<lambda>_.
                         io_ret killed))))
                   | _ \<Rightarrow> io_bind (logging_appendLog i ''app'' ''No running process to stop'')
                            (\<lambda>_. io_ret False))))"

definition isProjectRunning :: "string option \<Rightarrow> bool io" where
  "isProjectRunning projectId =
     (case projectId of
        None \<Rightarrow> io_throw (Error ''Project ID is required'')
      | Some i \<Rightarrow>
          if i = [] then io_throw (Error ''Project ID is required'')
          else io_bind (getProjectState i) (\<lambda>projectState. isProcessAlive (pid projectState)))"

definition getProjectPid :: "string option \<Rightarrow> (int jsfield) io" where
  "getProjectPid projectId =
     (case projectId of
        None \<Rightarrow> io_throw (Error ''Project ID is required'')
      | Some i \<Rightarrow>
          if i = [] then io_throw (Error ''Project ID is required'')
          else io_bind (getProjectState i) (\<lambda>projectState.
               io_bind (isProcessAlive (pid projectState)) (\<lambda>alive.
                 if alive then io_ret (pid projectState) else io_ret Null)))"

subsection \<open>tunnelLifecycle.js\<close>

text \<open>
  The pattern \<^verbatim>\<open>/https:\/\/([a-zA-Z0-9-]+\.trycloudflare\.com)/\<close>. The class does not
  contain the dot, so at a given position the greedy \<^verbatim>\<open>+\<close> can only stop at the end of the
  run of class characters: the match there is \<^verbatim>\<open>https://\<close>, the whole non-empty run, and
  \<^verbatim>\<open>.trycloudflare.com\<close>. \<^verbatim>\<open>String.prototype.match\<close> returns the leftmost match.
\<close>

definition url_char :: "char \<Rightarrow> bool" where
  "url_char c = (c \<in> set (''abcdefghijklmnopqrstuvwxyz'' @ ''ABCDEFGHIJKLMNOPQRSTUVWXYZ'' @ ''0123456789'' @ ''-''))"

definition match_here :: "string \<Rightarrow> string option" where
  "match_here s =
     (if prefix ''https://'' s
      then let r = drop 8 s; run = takeWhile url_char r; rest = dropWhile url_char r
           in if run \<noteq> [] \<and> prefix ''.trycloudflare.com'' rest
              then Some (''https://'' @ run @ ''.trycloudflare.com'')
              else None
      else None)"

fun match_url :: "string \<Rightarrow> string option" where
  "match_url [] = None"
| "match_url (c # cs) = (case match_here (c # cs) of Some u \<Rightarrow> Some u | None \<Rightarrow> match_url cs)"

text \<open>
  The \<^verbatim>\<open>data\<close> handler that \<open>startTunnel\<close> attaches to the child's standard output.
  \<open>urlCaptured\<close> is the variable of the enclosing \<open>startTunnel\<close> call: the handler
  takes its current value and returns the new one.
\<close>

definition tunnel_stdout_handler :: "string \<Rightarrow> string \<Rightarrow> bool \<Rightarrow> bool io" where
  "tunnel_stdout_handler i output urlCaptured =
     io_bind (logging_appendLog i ''tunnel'' output) (\<lambda>_.
       if \<not> urlCaptured
       then (case match_url output of
               Some tunnelUrl' \<Rightarrow>
                 io_bind (logging_appendLog i ''tunnel'' (''URL discovered: '' @ tunnelUrl')) (\<lambda>_.
                 io_bind (getProjectState i) (\<lambda>cur.
                 io_bind (\<lambda>w. setProjectState i
                            (cur\<lparr>tunnelUrl := Val tunnelUrl', tunnelUrlDiscoveredAt := Val (now w)\<rparr>) w) (\<lambda>_.
                 io_ret True)))
             | None \<Rightarrow> io_ret urlCaptured)
       else io_ret urlCaptured)"

text \<open>
  The output stream of one tunnel process: the handler runs once per chunk, in order,
  starting with \<open>urlCaptured = false\<close>. An exception escaping the handler ends the run.
\<close>

fun feed_stdout :: "string \<Rightarrow> string list \<Rightarrow> bool \<Rightarrow> bool io" where
  "feed_stdout i [] urlCaptured = io_ret urlCaptured"
| "feed_stdout i (chunk # chunks) urlCaptured =
     io_bind (tunnel_stdout_handler i chunk urlCaptured) (feed_stdout i chunks)"

definition startTunnel :: "project option \<Rightarrow> (int jsfield) io" where
  "startTunnel proj =
     (case proj of
        None \<Rightarrow> io_throw (Error ''Invalid project object: missing id or tunnelPort'')
      | Some p \<Rightarrow>
          (case (id_p p, tunnelPort p) of
             (Some i, Some tp) \<Rightarrow>
               if i = [] \<or> tp = 0
               then io_throw (Error ''Invalid project object: missing id or tunnelPort'')
               else
                 io_bind (getProjectState i) (\<lambda>projectState.
                 io_bind (isProcessAlive (tunnelPid projectState)) (\<lambda>alive.
                   if alive
                   then io_bind (logging_appendLog i ''tunnel''
                                  (''Tunnel already running with PID '' @ show_num_field (tunnelPid projectState)))
                          (\<lambda>_. io_ret (tunnelPid projectState))
                   else
                     io_bind (logging_appendLog i ''tunnel''
                               (''START: cloudflared tunnel on port '' @ show_int tp)) (\<lambda>_.
                     io_bind (spawn ''cloudflared'' [''tunnel'', ''--url'', ''localhost:'' @ show_int tp] None) (\<lambda>child_pid.
                     io_bind (getProjectState i) (\<lambda>cur.
                     io_bind (\<lambda>w. setProjectState i
                                (cur\<lparr>tunnelPid := child_pid, tunnelStartedAt := Val (now w)\<rparr>) w) (\<lambda>_.
                     io_bind (logging_appendLog i ''tunnel''
                               (''Tunnel process started with PID '' @ show_num_field child_pid)) (\<lambda>_.
                     io_ret child_pid)))))))
           | _ \<Rightarrow> io_throw (Error ''Invalid project object: missing id or tunnelPort'')))"

definition stopTunnel :: "project option \<Rightarrow> bool io" where
  "stopTunnel proj =
     (case proj of
        None \<Rightarrow> io_throw (Error ''Invalid project object: missing id'')
      | Some p \<Rightarrow>
          (case id_p p of
             None \<Rightarrow> io_throw (Error ''Invalid project object: missing id'')
           | Some i \<Rightarrow>
               if i = [] then io_throw (Error ''Invalid project object: missing id'')
               else
                 io_bind (getProjectState i) (\<lambda>projectState.
                   case tunnelPid projectState of
                     Val n \<Rightarrow>
                       if \<not> truthy_num (Val n)
                       then io_bind (logging_appendLog i ''tunnel'' ''No running tunnel process to stop'')
                              (\<lambda>_. io_ret False)
                       else
                         io_bind (logging_appendLog i ''tunnel''
                                   (''STOP: Killing tunnel process group for PID '' @ show_int n)) (\<lambda>_.
                         io_bind (stop_kill i ''tunnel'' ''Tunnel process group killed (SIGTERM)''
                                   ''Tunnel process killed (SIGTERM)'' ''Failed to kill tunnel process: '' n) (\<lambda>killed.
                         io_bind (getProjectState i) (\<lambda>cur.
                         io_bind (setProjectState i
                                   (cur\<lparr>tunnelPid := Null, tunnelStartedAt := Null, tunnelUrl := Null,
                                        tunnelUrlDiscoveredAt := Null\<rparr>)) (\<lambda>_.
                         io_ret killed))))
                   | _ \<Rightarrow> io_bind (logging_appendLog i ''tunnel'' ''No running tunnel process to stop'')
                            (\<lambda>_. io_ret False))))"

definition isTunnelRunning :: "string option \<Rightarrow> bool io" where
  "isTunnelRunning projectId =
     (case projectId of
        None \<Rightarrow> io_throw (Error ''Project ID is required'')
      | Some i \<Rightarrow>
          if i = [] then io_throw (Error ''Project ID is required'')
          else io_bind (getProjectState i) (\<lambda>projectState. isProcessAlive (tunnelPid projectState)))"

definition getTunnelUrl :: "string option \<Rightarrow> (string jsfield) io" where
  "getTunnelUrl projectId =
     (case projectId of
        None \<Rightarrow> io_throw (Error ''Project ID is required'')
      | Some i \<Rightarrow>
          if i = [] then io_throw (Error ''Project ID is required'')
          else io_bind (getProjectState i) (\<lambda>projectState.
               io_bind (isTunnelRunning projectId) (\<lambda>running.
                 if running then io_ret (str_or_null (tunnelUrl projectState)) else io_ret Null)))"

subsection \<open>logService.js\<close>




subsection \<open>routes/projects.js\<close>

record project_status =
  id_s :: "string option"
  name_s :: "string option"
  dir_s :: "string option"
  start_s :: "string option"
  port_s :: "int option"
  tunnelPort_s :: "int option"
  running :: bool
  pid_s :: "int jsfield"
  startedAt_s :: "int jsfield"
  tunnelRunning :: bool
  tunnelPid_s :: "int jsfield"
  tunnelUrl_s :: "string jsfield"
  tunnelStartedAt_s :: "int jsfield"

text \<open>
  The properties of the object literal are evaluated in the order written. A missing
  \<^verbatim>\<open>project.id\<close> is the property key \<^verbatim>\<open>"undefined"\<close> in \<open>getProjectState\<close>.
\<close>

definition buildProjectStatus :: "project \<Rightarrow> project_status io" where
  "buildProjectStatus p =
     (let projectId = id_p p in
      io_bind (getProjectState (case projectId of None \<Rightarrow> ''undefined'' | Some i \<Rightarrow> i)) (\<lambda>projectState.
      io_bind (isProjectRunning projectId) (\<lambda>running'.
      io_bind (isTunnelRunning projectId) (\<lambda>tunnelRunning'.
      io_bind (getTunnelUrl projectId) (\<lambda>tunnelUrl'.
      io_ret \<lparr> id_s = id_p p, name_s = name_p p, dir_s = dir p, start_s = start p, port_s = port p,
               tunnelPort_s = port p,
               running = running',
               pid_s = num_or_null (pid projectState),
               startedAt_s = num_or_null (startedAt projectState),
               tunnelRunning = tunnelRunning',
               tunnelPid_s = num_or_null (tunnelPid projectState),
               tunnelUrl_s = tunnelUrl',
               tunnelStartedAt_s = num_or_null (tunnelStartedAt projectState) \<rparr>)))))"

text \<open>\<^verbatim>\<open>array.map(f)\<close> with a callback that may throw.\<close>

fun map_io :: "('a \<Rightarrow> 'b io) \<Rightarrow> 'a list \<Rightarrow> ('b list) io" where
  "map_io f [] = io_ret []"
| "map_io f (x # xs) = io_bind (f x) (\<lambda>y. io_bind (map_io f xs) (\<lambda>ys. io_ret (y # ys)))"

datatype body =
    ProjectsBody "project_status list"    \<comment> \<open>\<^verbatim>\<open>{ projects }\<close>\<close>
  | ProjectBody project_status            \<comment> \<open>\<^verbatim>\<open>{ project }\<close>\<close>
  | ErrorBody string "string option"      \<comment> \<open>\<^verbatim>\<open>{ error, message }\<close>\<close>

text \<open>
  The two status endpoints, given the project list of the loaded configuration
  (\<open>getAllProjects()\<close>). A response is the HTTP status code and the JSON body.
\<close>

definition getProject :: "project list \<Rightarrow> string \<Rightarrow> project option" where
  "getProject cfg i = find (\<lambda>p. id_p p = Some i) cfg"

definition get_projects :: "project list \<Rightarrow> world \<Rightarrow> (nat \<times> body) \<times> world" where
  "get_projects cfg w =
     (case map_io buildProjectStatus cfg w of
        (Inr sts, w') \<Rightarrow> ((200, ProjectsBody sts), w')
      | (Inl err, w') \<Rightarrow> ((500, ErrorBody ''Failed to load projects'' (Some (message err))), w'))"

definition get_project_by_id :: "project list \<Rightarrow> string \<Rightarrow> world \<Rightarrow> (nat \<times> body) \<times> world" where
  "get_project_by_id cfg i w =
     (case getProject cfg i of
        None \<Rightarrow> ((404, ErrorBody ''Project not found'' None), w)
      | Some p \<Rightarrow>
          (case buildProjectStatus p w of
             (Inr st, w') \<Rightarrow> ((200, ProjectBody st), w')
           | (Inl err, w') \<Rightarrow> ((500, ErrorBody ''Failed to load project'' (Some (message err))), w')))"

subsection \<open>config/validator.js\<close>

text \<open>
  The validator receives what \<^verbatim>\<open>JSON.parse\<close> returned. A string is a list of UTF-16 code
  units; an object is the list of its own properties, with distinct keys; a number is the
  value of the double that was parsed (a literal beyond the range of the doubles parses
  to an infinity, which this type leaves out: the validator treats it as any other
  number that is not an integer).
\<close>

type_synonym code_unit = "16 word"

datatype json =
    JNull | JBool bool | JNum rat | JStr "code_unit list" | JArr "json list"
  | JObj "(code_unit list \<times> json) list"





text \<open>
  \<^verbatim>\<open>String.prototype.trim\<close> removes white space and line terminators from both ends. These
  are the code units of ECMAScript's \<^verbatim>\<open>WhiteSpace\<close> (TAB, VT, FF, ZWNBSP and the space
  separators of Unicode) and \<^verbatim>\<open>LineTerminator\<close> (LF, CR, LS, PS).
\<close>

definition js_space :: "code_unit \<Rightarrow> bool" where
  "js_space c = (c \<in> {0x0009, 0x000A, 0x000B, 0x000C, 0x000D, 0x0020, 0x00A0, 0x1680,
      0x2000, 0x2001, 0x2002, 0x2003, 0x2004, 0x2005, 0x2006, 0x2007, 0x2008, 0x2009, 0x200A,
      0x2028, 0x2029, 0x202F, 0x205F, 0x3000, 0xFEFF})"











subsection \<open>Notions used in the statements\<close>

text \<open>The documents written to the state file by the calls of a trace.\<close>

definition saves :: "event list \<Rightarrow> state_doc list" where
  "saves tr = [d. SaveCall d \<leftarrow> tr]"

text \<open>
  An operation is read-only when, from every world, it leaves the state file as it was
  and adds no write of the state file to the trace.
\<close>

definition readonly :: "(world \<Rightarrow> 'a \<times> world) \<Rightarrow> bool" where
  "readonly f = (\<forall>w. state_file (snd (f w)) = state_file w
                    \<and> saves (trace (snd (f w))) = saves (trace w))"



text \<open>
  The schema in the words of the specification: the top level requires \<^verbatim>\<open>port\<close>, an
  integer from 0 to 65535, and \<^verbatim>\<open>projects\<close>, an array; each project entry requires
  non-empty strings \<^verbatim>\<open>id\<close>, \<^verbatim>\<open>name\<close>, \<^verbatim>\<open>dir\<close>, \<^verbatim>\<open>start\<close> and a \<^verbatim>\<open>port\<close> under the same rule.
\<close>

definition spec_port :: "json option \<Rightarrow> bool" where
  "spec_port v = (case v of Some (JNum r) \<Rightarrow> r \<in> \<int> \<and> 0 \<le> r \<and> r \<le> 65535 | _ \<Rightarrow> False)"




text \<open>
  The schema the validator enforces differs in one place: a string must contain a
  code unit that is not white space.
\<close>

definition nonblank_string :: "json option \<Rightarrow> bool" where
  "nonblank_string v = (case v of Some (JStr s) \<Rightarrow> \<exists>c \<in> set s. \<not> js_space c | _ \<Rightarrow> False)"




subsection \<open>A concrete installation\<close>

text \<open>
  One project, \<^verbatim>\<open>web\<close>, recorded with pid 4242 and a tunnel with pid 4300; neither
  process exists any more. The theorems below are instantiated on it.
\<close>

definition example_state :: pstate where
  "example_state = \<lparr> pid = Val 4242, startedAt = Val 1700000000000, tunnelPid = Val 4300,
     tunnelStartedAt = Val 1700000001000, tunnelUrl = Val ''https://demo.trycloudflare.com'',
     tunnelUrlDiscoveredAt = Val 1700000002000 \<rparr>"

definition example_doc :: state_doc where
  "example_doc = \<lparr> projects = Some [''web'' \<mapsto> example_state] \<rparr>"

definition example_world :: world where
  "example_world = \<lparr> state_file = Doc example_doc, state_writable = True, logs_dir = True,
     logs = Map.empty, logs_writable = True, signalable = {}, now = 1700000003000,
     now_iso = ''2023-11-14T22:13:23.000Z'', spawn_pid = Some 5000,
     resolve_dir = (\<lambda>d. if d = ''.'' then ''/srv/dashboard'' else ''/srv/dashboard/'' @ d),
     trace = [] \<rparr>"

text \<open>The same installation while process 4242 is running.\<close>

definition example_running :: world where
  "example_running = example_world\<lparr>signalable := {4242, - 4242}\<rparr>"

definition example_project :: project where
  "example_project = \<lparr> id_p = Some ''web'', name_p = Some ''Web'', dir = Some ''.'',
     start = Some ''npm start'', port = Some 3000, tunnelPort = Some 3000 \<rparr>"

text \<open>
  The installation after a stop: the pid is null, the start time is recorded as 0, and
  the tunnel fields were never set.
\<close>

definition example_stopped_doc :: state_doc where
  "example_stopped_doc = \<lparr> projects = Some [''web'' \<mapsto>
     \<lparr> pid = Null, startedAt = Val 0, tunnelPid = Undefined, tunnelStartedAt = Null,
       tunnelUrl = Undefined, tunnelUrlDiscoveredAt = Undefined \<rparr>] \<rparr>"

definition example_stopped :: world where
  "example_stopped = example_world\<lparr>state_file := Doc example_stopped_doc\<rparr>"










section \<open>Properties\<close>

subsection \<open>The effect of the primitives\<close>

lemma logging_appendLog_ok:
  "logs_writable w \<Longrightarrow> logging_appendLog i t m w = (Inr (), logged i t m w)"
  by (cases "logs_dir w")
     (simp_all add: logging_appendLog_def io_bind_def ensureLogDir_def appendFileSync_def logged_def)

lemma logged_fields [simp]:
  "state_file (logged i t m w) = state_file w"
  "state_writable (logged i t m w) = state_writable w"
  "logs_writable (logged i t m w) = logs_writable w"
  "signalable (logged i t m w) = signalable w"
  "now (logged i t m w) = now w"
  "now_iso (logged i t m w) = now_iso w"
  "spawn_pid (logged i t m w) = spawn_pid w"
  "trace (logged i t m w) = trace w"
  "logs_dir (logged i t m w) = True"
  by (simp_all add: logged_def)

lemma loadState_cong:
  "state_file w' = state_file w \<Longrightarrow> loadState w = (Inr st, w) \<Longrightarrow> loadState w' = (Inr st, w')"
  by (auto simp: loadState_def read_state_file_def io_catch_def io_ret_def io_throw_def
        split: disk.splits if_splits error.splits)

lemma loadState_example: "loadState example_world = (Inr example_doc, example_world)"
  by (simp add: loadState_def read_state_file_def io_catch_def example_world_def)

lemma entry_example: "project_entry example_doc ''web'' = example_state"
  by (simp add: project_entry_def projects_or_empty_def example_doc_def)

lemma loadState_running: "loadState example_running = (Inr example_doc, example_running)"
  by (simp add: loadState_def read_state_file_def io_catch_def example_running_def example_world_def)

lemma getProjectState_ok:
  "loadState w = (Inr st, w) \<Longrightarrow> getProjectState i w = (Inr (project_entry st i), w)"
  by (simp add: getProjectState_def io_bind_def io_ret_def)

lemma setProjectState_ok:
  "loadState w = (Inr st, w) \<Longrightarrow> state_writable w \<Longrightarrow>
   setProjectState i ps w =
     (Inr (), w\<lparr>trace := trace w @ [SaveCall (st\<lparr>projects := Some (assign_property (projects_or_empty st) i ps)\<rparr>)],
               state_file := Doc (st\<lparr>projects := Some (assign_property (projects_or_empty st) i ps)\<rparr>)\<rparr>)"
  by (simp add: setProjectState_def io_bind_def saveState_def Let_def)

lemma assign_property_own:
  "key \<noteq> ''__proto__'' \<or> object key \<noteq> None \<Longrightarrow> assign_property object key v = object(key \<mapsto> v)"
  by (auto simp: assign_property_def)

lemma recorded_pid_own_entry:
  "pid (project_entry st i) = Val n \<Longrightarrow> projects_or_empty st i \<noteq> None"
  by (auto simp: project_entry_def empty_pstate_def split: option.splits)

lemma stop_kill_eq:
  "logs_writable w \<Longrightarrow>
   stop_kill i t g ok fail n w =
     (if - n \<in> signalable w
      then (Inr True, logged i t g (w\<lparr>trace := trace w @ [KillCall (- n) SIGTERM]\<rparr>))
      else if n \<in> signalable w
      then (Inr True, logged i t ok (w\<lparr>trace := trace w @ [KillCall (- n) SIGTERM, KillCall n SIGTERM]\<rparr>))
      else (Inr False, logged i t (fail @ ''kill ESRCH'')
              (w\<lparr>trace := trace w @ [KillCall (- n) SIGTERM, KillCall n SIGTERM]\<rparr>)))"
  by (simp add: stop_kill_def stop_fallback_def process_kill_def Let_def logging_appendLog_ok
        io_bind_def io_ret_def)

lemma isProcessAlive_eq:
  "isProcessAlive p w =
     (case p of
        Val n \<Rightarrow> if n = 0 then (Inr False, w)
                 else (Inr (n \<in> signalable w), w\<lparr>trace := trace w @ [KillCall n Sig0]\<rparr>)
      | _ \<Rightarrow> (Inr False, w))"
  by (cases p)
     (simp_all add: isProcessAlive_def io_ret_def io_catch_def io_bind_def process_kill_def Let_def)


subsection \<open>Stopping a project\<close>

lemma stopProject_unfold:
  "id_p p = Some i \<Longrightarrow> i \<noteq> [] \<Longrightarrow>
   stopProject (Some p) =
     io_bind (getProjectState i) (\<lambda>projectState.
       case pid projectState of
         Val n \<Rightarrow>
           if \<not> truthy_num (Val n)
           then io_bind (logging_appendLog i ''app'' ''No running process to stop'') (\<lambda>_. io_ret False)
           else
             io_bind (logging_appendLog i ''app'' (''STOP: Killing process group for PID '' @ show_int n)) (\<lambda>_.
             io_bind (stop_kill i ''app'' ''Process group killed (SIGTERM)''
                       ''Process killed (SIGTERM)'' ''Failed to kill process: '' n) (\<lambda>killed.
             io_bind (getProjectState i) (\<lambda>cur.
             io_bind (setProjectState i (cur\<lparr>pid := Null, startedAt := Null\<rparr>)) (\<lambda>_.
             io_ret killed))))
       | _ \<Rightarrow> io_bind (logging_appendLog i ''app'' ''No running process to stop'') (\<lambda>_. io_ret False))"
  by (simp add: stopProject_def)

text \<open>
  Claim C1. Let the project have a non-empty id, the state file be absent or hold a
  document \<open>st\<close>, and the log directory and the state file be writable. If the entry of the
  project records a pid \<open>n\<close> (a non-zero number), \<open>stopProject\<close> signals the process group
  \<open>-n\<close> first and the process \<open>n\<close> only when that fails, returns true exactly when one of
  the two signals was delivered, and in both cases writes the entry back with \<open>pid\<close> and
  \<open>startedAt\<close> set to null and every other field (the tunnel fields) as it was. If no pid
  is recorded (absent, null or 0), it returns false, sends no signal and writes nothing.
\<close>

theorem stopProject_clears_and_reports:
  assumes idp: "id_p p = Some i" "i \<noteq> []"
    and st: "loadState w = (Inr st, w)"
    and env: "logs_writable w" "state_writable w"
  shows "(\<forall>n. pid (project_entry st i) = Val n \<and> n \<noteq> 0 \<longrightarrow>
           (\<exists>w'. stopProject (Some p) w = (Inr (- n \<in> signalable w \<or> n \<in> signalable w), w')
              \<and> state_file w' = Doc (st\<lparr>projects := Some ((projects_or_empty st)
                     (i \<mapsto> (project_entry st i)\<lparr>pid := Null, startedAt := Null\<rparr>))\<rparr>)
              \<and> trace w' = trace w
                  @ (if - n \<in> signalable w then [KillCall (- n) SIGTERM]
                     else [KillCall (- n) SIGTERM, KillCall n SIGTERM])
                  @ [SaveCall (st\<lparr>projects := Some ((projects_or_empty st)
                     (i \<mapsto> (project_entry st i)\<lparr>pid := Null, startedAt := Null\<rparr>))\<rparr>)]))
       \<and> (\<not> truthy_num (pid (project_entry st i)) \<longrightarrow>
           (\<exists>w'. stopProject (Some p) w = (Inr False, w') \<and> trace w' = trace w
              \<and> state_file w' = state_file w))"
proof (intro conjI allI impI)
  fix n assume n: "pid (project_entry st i) = Val n \<and> n \<noteq> 0"
  have ld: "\<And>w'. state_file w' = state_file w \<Longrightarrow> loadState w' = (Inr st, w')"
    by (rule loadState_cong [OF _ st])
  show "\<exists>w'. stopProject (Some p) w = (Inr (- n \<in> signalable w \<or> n \<in> signalable w), w')
              \<and> state_file w' = Doc (st\<lparr>projects := Some ((projects_or_empty st)
                     (i \<mapsto> (project_entry st i)\<lparr>pid := Null, startedAt := Null\<rparr>))\<rparr>)
              \<and> trace w' = trace w
                  @ (if - n \<in> signalable w then [KillCall (- n) SIGTERM]
                     else [KillCall (- n) SIGTERM, KillCall n SIGTERM])
                  @ [SaveCall (st\<lparr>projects := Some ((projects_or_empty st)
                     (i \<mapsto> (project_entry st i)\<lparr>pid := Null, startedAt := Null\<rparr>))\<rparr>)]"
    using n env recorded_pid_own_entry [of st i n]
    by (simp add: stopProject_unfold [OF idp] io_bind_def getProjectState_ok [OF st]
        logging_appendLog_ok stop_kill_eq getProjectState_ok [OF ld] setProjectState_ok [OF ld]
        io_ret_def assign_property_own)
next
  assume f: "\<not> truthy_num (pid (project_entry st i))"
  show "\<exists>w'. stopProject (Some p) w = (Inr False, w') \<and> trace w' = trace w \<and> state_file w' = state_file w"
    using f env
    by (cases "pid (project_entry st i)")
       (simp_all add: stopProject_unfold [OF idp] io_bind_def getProjectState_ok [OF st]
          logging_appendLog_ok io_ret_def)
qed

text \<open>
  On the concrete installation the recorded process 4242 is gone, so both signals fail:
  the call returns false and the entry is cleared all the same.
\<close>

theorem stopProject_clears_and_reports_witness:
  "id_p example_project = Some ''web'' \<and> loadState example_world = (Inr example_doc, example_world)
   \<and> logs_writable example_world \<and> state_writable example_world
   \<and> pid (project_entry example_doc ''web'') = Val 4242
   \<and> (\<exists>w'. stopProject (Some example_project) example_world = (Inr False, w')
         \<and> state_file w' = Doc \<lparr>projects = Some [''web'' \<mapsto> example_state\<lparr>pid := Null, startedAt := Null\<rparr>]\<rparr>
         \<and> trace w' = [KillCall (- 4242) SIGTERM, KillCall 4242 SIGTERM,
              SaveCall \<lparr>projects = Some [''web'' \<mapsto> example_state\<lparr>pid := Null, startedAt := Null\<rparr>]\<rparr>])"
proof -
  have h1: "id_p example_project = Some ''web''" by (simp add: example_project_def)
  have h2: "''web'' \<noteq> []" by simp
  have h4: "logs_writable example_world" and h5: "state_writable example_world"
    by (simp_all add: example_world_def)
  have e: "project_entry example_doc ''web'' = example_state"
    by (simp add: project_entry_def projects_or_empty_def example_doc_def)
  have p: "pid example_state = Val 4242" by (simp add: example_state_def)
  have s: "signalable example_world = {}" "trace example_world = []"
    by (simp_all add: example_world_def)
  from stopProject_clears_and_reports [OF h1 h2 loadState_example h4 h5]
  have "\<exists>w'. stopProject (Some example_project) example_world
            = (Inr (- 4242 \<in> signalable example_world \<or> 4242 \<in> signalable example_world), w')
          \<and> state_file w' = Doc (example_doc\<lparr>projects := Some ((projects_or_empty example_doc)
                 (''web'' \<mapsto> (project_entry example_doc ''web'')\<lparr>pid := Null, startedAt := Null\<rparr>))\<rparr>)
          \<and> trace w' = trace example_world
              @ (if - 4242 \<in> signalable example_world then [KillCall (- 4242) SIGTERM]
                 else [KillCall (- 4242) SIGTERM, KillCall 4242 SIGTERM])
              @ [SaveCall (example_doc\<lparr>projects := Some ((projects_or_empty example_doc)
                 (''web'' \<mapsto> (project_entry example_doc ''web'')\<lparr>pid := Null, startedAt := Null\<rparr>))\<rparr>)]"
    using e p by simp
  then show ?thesis
    using h1 h4 h5 e p s loadState_example
    by (simp add: projects_or_empty_def example_doc_def)
qed

subsection \<open>Starting a project that is running\<close>

text \<open>
  Claim C2. Let the project be valid (non-empty id, start command and directory), the
  state file hold a pid \<open>n\<close> for it that refers to a live process (a non-zero pid the
  operating system can signal), and the log directory be writable. Then \<open>startProject\<close>
  returns that pid; the only call it makes is the liveness probe, so nothing is spawned
  and the state file is not written.
\<close>

theorem startProject_idempotent:
  assumes idp: "id_p p = Some i" "i \<noteq> []"
    and cmd: "start p = Some cmd" "cmd \<noteq> []"
    and dir: "dir p = Some d" "d \<noteq> []"
    and st: "loadState w = (Inr st, w)"
    and alive: "pid (project_entry st i) = Val n" "n \<noteq> 0" "n \<in> signalable w"
    and env: "logs_writable w"
  shows "\<exists>w'. startProject (Some p) w = (Inr (Val n), w')
           \<and> state_file w' = state_file w
           \<and> trace w' = trace w @ [KillCall n Sig0]"
  using assms
  by (simp add: startProject_def io_bind_def getProjectState_ok [OF st] isProcessAlive_eq
        logging_appendLog_ok io_ret_def)

text \<open>While process 4242 is running, starting the project again returns 4242 after a single probe.\<close>

theorem startProject_idempotent_witness:
  "id_p example_project = Some ''web'' \<and> start example_project = Some ''npm start''
   \<and> dir example_project = Some ''.''
   \<and> loadState example_running = (Inr example_doc, example_running)
   \<and> pid (project_entry example_doc ''web'') = Val 4242 \<and> 4242 \<in> signalable example_running
   \<and> logs_writable example_running
   \<and> (\<exists>w'. startProject (Some example_project) example_running = (Inr (Val 4242), w')
         \<and> state_file w' = Doc example_doc \<and> trace w' = [KillCall 4242 Sig0])"
proof -
  have h1: "id_p example_project = Some ''web''" and h3: "start example_project = Some ''npm start''"
    and h5: "dir example_project = Some ''.''"
    by (simp_all add: example_project_def)
  have h8: "pid (project_entry example_doc ''web'') = Val 4242"
    by (simp add: entry_example example_state_def)
  have h10: "4242 \<in> signalable example_running" and h11: "logs_writable example_running"
    and f: "state_file example_running = Doc example_doc" "trace example_running = []"
    by (simp_all add: example_running_def example_world_def)
  from startProject_idempotent [OF h1 _ h3 _ h5 _ loadState_running h8 _ h10 h11]
  have "\<exists>w'. startProject (Some example_project) example_running = (Inr (Val 4242), w')
           \<and> state_file w' = state_file example_running
           \<and> trace w' = trace example_running @ [KillCall 4242 Sig0]"
    by simp
  then show ?thesis
    using h1 h3 h5 h8 h10 h11 loadState_running f by simp
qed

subsection \<open>The tunnel URL\<close>

text \<open>
  Claim C3. Let the id be non-empty and the state file be absent or hold a document.
  When the recorded tunnel pid is a non-zero number the operating system can signal,
  \<open>getTunnelUrl\<close> returns the stored URL, or null when the stored URL is absent, null or
  empty. In every other case (no tunnel pid, or one that cannot be signalled) it returns
  null, whatever URL is stored.
\<close>

theorem getTunnelUrl_only_when_alive:
  assumes i: "i \<noteq> []" and st: "loadState w = (Inr st, w)"
  shows "(\<forall>n. tunnelPid (project_entry st i) = Val n \<and> n \<noteq> 0 \<and> n \<in> signalable w \<longrightarrow>
            fst (getTunnelUrl (Some i) w)
              = Inr (case tunnelUrl (project_entry st i) of
                       Val u \<Rightarrow> if u = [] then Null else Val u
                     | _ \<Rightarrow> Null))
       \<and> ((\<forall>n. tunnelPid (project_entry st i) = Val n \<longrightarrow> n = 0 \<or> n \<notin> signalable w) \<longrightarrow>
            fst (getTunnelUrl (Some i) w) = Inr Null)"
  using i
  by (cases "tunnelPid (project_entry st i)"; cases "tunnelUrl (project_entry st i)")
     (auto simp add: getTunnelUrl_def isTunnelRunning_def io_bind_def getProjectState_ok [OF st]
        isProcessAlive_eq io_ret_def str_or_null_def)

text \<open>The tunnel process 4300 is gone: the URL still stored is not returned.\<close>

theorem getTunnelUrl_only_when_alive_witness:
  "loadState example_world = (Inr example_doc, example_world)
   \<and> tunnelPid (project_entry example_doc ''web'') = Val 4300
   \<and> 4300 \<notin> signalable example_world
   \<and> tunnelUrl (project_entry example_doc ''web'') = Val ''https://demo.trycloudflare.com''
   \<and> fst (getTunnelUrl (Some ''web'') example_world) = Inr Null"
proof -
  have t: "tunnelPid (project_entry example_doc ''web'') = Val 4300"
    and u: "tunnelUrl (project_entry example_doc ''web'') = Val ''https://demo.trycloudflare.com''"
    by (simp_all add: entry_example example_state_def)
  have s: "4300 \<notin> signalable example_world" by (simp add: example_world_def)
  have "''web'' \<noteq> []" by simp
  from getTunnelUrl_only_when_alive [OF this loadState_example, THEN conjunct2]
  have "fst (getTunnelUrl (Some ''web'') example_world) = Inr Null"
    using t s by simp
  then show ?thesis using t u s loadState_example by simp
qed

subsection \<open>Capturing the tunnel URL\<close>

lemma handler_captured:
  "logs_writable w \<Longrightarrow> tunnel_stdout_handler i c True w = (Inr True, logged i ''tunnel'' c w)"
  by (simp add: tunnel_stdout_handler_def io_bind_def logging_appendLog_ok io_ret_def)

lemma handler_no_match:
  "logs_writable w \<Longrightarrow> match_url c = None \<Longrightarrow>
   tunnel_stdout_handler i c False w = (Inr False, logged i ''tunnel'' c w)"
  by (simp add: tunnel_stdout_handler_def io_bind_def logging_appendLog_ok io_ret_def)

lemma handler_match:
  assumes "logs_writable w" "state_writable w" "loadState w = (Inr st, w)" "match_url c = Some u"
  shows "\<exists>w'. tunnel_stdout_handler i c False w = (Inr True, w')
     \<and> logs_writable w'
     \<and> state_file w' = Doc (st\<lparr>projects := Some (assign_property (projects_or_empty st) i
            ((project_entry st i)\<lparr>tunnelUrl := Val u, tunnelUrlDiscoveredAt := Val (now w)\<rparr>))\<rparr>)
     \<and> trace w' = trace w @ [SaveCall (st\<lparr>projects := Some (assign_property (projects_or_empty st) i
            ((project_entry st i)\<lparr>tunnelUrl := Val u, tunnelUrlDiscoveredAt := Val (now w)\<rparr>))\<rparr>)]"
proof -
  have ld: "\<And>w'. state_file w' = state_file w \<Longrightarrow> loadState w' = (Inr st, w')"
    by (rule loadState_cong [OF _ assms(3)])
  show ?thesis
    using assms(1,2,4)
    by (simp add: tunnel_stdout_handler_def io_bind_def logging_appendLog_ok io_ret_def
          getProjectState_ok [OF ld] setProjectState_ok [OF ld])
qed

lemma feed_captured:
  "logs_writable w \<Longrightarrow>
   \<exists>w'. feed_stdout i cs True w = (Inr True, w') \<and> state_file w' = state_file w \<and> trace w' = trace w"
proof (induction cs arbitrary: w)
  case Nil
  then show ?case by (simp add: io_ret_def)
next
  case (Cons c cs)
  have "logs_writable (logged i ''tunnel'' c w)" using Cons.prems by simp
  from Cons.IH [OF this] Cons.prems show ?case
    by (simp add: io_bind_def handler_captured)
qed

text \<open>
  What one output stream does to the state file. Let the chunks be \<open>pre\<close>, none of which
  matches the URL pattern, then a chunk \<open>c\<close> whose leftmost match is \<open>u\<close>, then any chunks
  \<open>post\<close>, matching or not. Starting from \<open>urlCaptured = false\<close>, with the state file
  loadable and the log directory and state file writable, the handler saves the state
  file exactly once, at \<open>c\<close>: the document saved is the one loaded, after the assignment of
  the entry with \<open>tunnelUrl = u\<close> and the discovery time to the key of the project. It is
  the document on disk at the end, so no chunk of \<open>post\<close> has written anything.
\<close>

lemma feed_first_match:
  assumes env: "logs_writable w" "state_writable w"
    and st: "loadState w = (Inr st, w)"
    and pre: "\<forall>c \<in> set pre. match_url c = None"
    and c: "match_url c = Some u"
  shows "\<exists>w'. feed_stdout i (pre @ c # post) False w = (Inr True, w')
     \<and> state_file w' = Doc (st\<lparr>projects := Some (assign_property (projects_or_empty st) i
            ((project_entry st i)\<lparr>tunnelUrl := Val u, tunnelUrlDiscoveredAt := Val (now w)\<rparr>))\<rparr>)
     \<and> trace w' = trace w @ [SaveCall (st\<lparr>projects := Some (assign_property (projects_or_empty st) i
            ((project_entry st i)\<lparr>tunnelUrl := Val u, tunnelUrlDiscoveredAt := Val (now w)\<rparr>))\<rparr>)]"
  using env st pre
proof (induction pre arbitrary: w)
  case Nil
  let ?D = "st\<lparr>projects := Some (assign_property (projects_or_empty st) i
            ((project_entry st i)\<lparr>tunnelUrl := Val u, tunnelUrlDiscoveredAt := Val (now w)\<rparr>))\<rparr>"
  from handler_match [OF Nil.prems(1,2,3) c, of i]
  obtain w1 where h: "tunnel_stdout_handler i c False w = (Inr True, w1)" "logs_writable w1"
    and s1: "state_file w1 = Doc ?D" and t1: "trace w1 = trace w @ [SaveCall ?D]"
    by blast
  from feed_captured [OF h(2), of i post]
  obtain w2 where w2: "feed_stdout i post True w1 = (Inr True, w2)"
    and s2: "state_file w2 = state_file w1" and t2: "trace w2 = trace w1" by blast
  have "feed_stdout i ([] @ c # post) False w = (Inr True, w2)"
    using h(1) w2 by (simp add: io_bind_def)
  moreover have "state_file w2 = Doc ?D" using s2 s1 by (rule trans)
  moreover have "trace w2 = trace w @ [SaveCall ?D]" using t2 t1 by (rule trans)
  ultimately show ?case by blast
next
  case (Cons a pre)
  let ?w1 = "logged i ''tunnel'' a w"
  let ?D = "st\<lparr>projects := Some (assign_property (projects_or_empty st) i
            ((project_entry st i)\<lparr>tunnelUrl := Val u, tunnelUrlDiscoveredAt := Val (now w)\<rparr>))\<rparr>"
  have a: "match_url a = None" using Cons.prems(4) by simp
  have h: "tunnel_stdout_handler i a False w = (Inr False, ?w1)"
    by (rule handler_no_match [OF Cons.prems(1) a])
  have "logs_writable ?w1" "state_writable ?w1" using Cons.prems by simp_all
  moreover have "loadState ?w1 = (Inr st, ?w1)"
    by (rule loadState_cong [OF _ Cons.prems(3)]) simp
  moreover have "\<forall>c \<in> set pre. match_url c = None" using Cons.prems(4) by simp
  ultimately obtain w2 where w2: "feed_stdout i (pre @ c # post) False ?w1 = (Inr True, w2)"
    and s2: "state_file w2 = Doc (st\<lparr>projects := Some (assign_property (projects_or_empty st) i
            ((project_entry st i)\<lparr>tunnelUrl := Val u, tunnelUrlDiscoveredAt := Val (now ?w1)\<rparr>))\<rparr>)"
    and t2: "trace w2 = trace ?w1 @ [SaveCall (st\<lparr>projects := Some (assign_property (projects_or_empty st) i
            ((project_entry st i)\<lparr>tunnelUrl := Val u, tunnelUrlDiscoveredAt := Val (now ?w1)\<rparr>))\<rparr>)]"
    using Cons.IH [of ?w1] by blast
  have n: "now ?w1 = now w" "trace ?w1 = trace w" by simp_all
  have "feed_stdout i ((a # pre) @ c # post) False w = (Inr True, w2)"
    using h w2 by (simp add: io_bind_def)
  moreover have "state_file w2 = Doc ?D" using s2 unfolding n .
  moreover have "trace w2 = trace w @ [SaveCall ?D]" using t2 unfolding n .
  ultimately show ?case by blast
qed

text \<open>
  For a project id other than \<^verbatim>\<open>__proto__\<close> (or one with an entry of its own in the document)
  the assignment stores the entry: the URL of the first matching chunk and the discovery
  time are in the state file after the stream, written once.
\<close>

lemma first_url_stored_once:
  assumes env: "logs_writable w" "state_writable w"
    and st: "loadState w = (Inr st, w)"
    and own: "i \<noteq> ''__proto__'' \<or> projects_or_empty st i \<noteq> None"
    and pre: "\<forall>c \<in> set pre. match_url c = None"
    and c: "match_url c = Some u"
  shows "\<exists>w'. feed_stdout i (pre @ c # post) False w = (Inr True, w')
     \<and> state_file w' = Doc (st\<lparr>projects := Some ((projects_or_empty st)
            (i \<mapsto> (project_entry st i)\<lparr>tunnelUrl := Val u, tunnelUrlDiscoveredAt := Val (now w)\<rparr>))\<rparr>)
     \<and> trace w' = trace w @ [SaveCall (st\<lparr>projects := Some ((projects_or_empty st)
            (i \<mapsto> (project_entry st i)\<lparr>tunnelUrl := Val u, tunnelUrlDiscoveredAt := Val (now w)\<rparr>))\<rparr>)]"
  using feed_first_match [OF env st pre c, of i post]
  unfolding assign_property_own [where object = "projects_or_empty st" and key = i, OF own] .

lemma match_url_quiet_river:
  "match_url ''| https://quiet-river.trycloudflare.com |'' = Some ''https://quiet-river.trycloudflare.com''"
  by (simp add: match_here_def url_char_def)

lemma match_url_other_name:
  "match_url ''https://other-name.trycloudflare.com'' = Some ''https://other-name.trycloudflare.com''"
  by (simp add: match_here_def url_char_def)

lemma match_url_requesting: "match_url ''Requesting new quick tunnel'' = None"
  by (simp add: match_here_def)

lemma first_url_stored_once_example:
  "\<exists>w'. feed_stdout ''web''
              [''Requesting new quick tunnel'', ''| https://quiet-river.trycloudflare.com |'',
               ''https://other-name.trycloudflare.com''] False example_world = (Inr True, w')
         \<and> state_file w' = Doc \<lparr>projects = Some [''web'' \<mapsto>
               example_state\<lparr>tunnelUrl := Val ''https://quiet-river.trycloudflare.com'',
                               tunnelUrlDiscoveredAt := Val 1700000003000\<rparr>]\<rparr>
         \<and> saves (trace w') = [\<lparr>projects = Some [''web'' \<mapsto>
               example_state\<lparr>tunnelUrl := Val ''https://quiet-river.trycloudflare.com'',
                               tunnelUrlDiscoveredAt := Val 1700000003000\<rparr>]\<rparr>]"
proof -
  have e: "logs_writable example_world" "state_writable example_world"
    and f: "now example_world = 1700000003000" "trace example_world = []"
    by (simp_all add: example_world_def)
  have own: "''web'' \<noteq> ''__proto__'' \<or> projects_or_empty example_doc ''web'' \<noteq> None" by simp
  have pre: "\<forall>c \<in> set [''Requesting new quick tunnel'']. match_url c = None"
    using match_url_requesting by simp
  from first_url_stored_once [OF e loadState_example own pre match_url_quiet_river,
      of "[''https://other-name.trycloudflare.com'']"]
  obtain w' where w: "feed_stdout ''web''
              ([''Requesting new quick tunnel''] @ ''| https://quiet-river.trycloudflare.com |'' #
               [''https://other-name.trycloudflare.com'']) False example_world = (Inr True, w')"
    and s: "state_file w' = Doc (example_doc\<lparr>projects := Some ((projects_or_empty example_doc)
            (''web'' \<mapsto> (project_entry example_doc ''web'')\<lparr>tunnelUrl := Val ''https://quiet-river.trycloudflare.com'',
               tunnelUrlDiscoveredAt := Val (now example_world)\<rparr>))\<rparr>)"
    and t: "trace w' = trace example_world @ [SaveCall (example_doc\<lparr>projects := Some ((projects_or_empty example_doc)
            (''web'' \<mapsto> (project_entry example_doc ''web'')\<lparr>tunnelUrl := Val ''https://quiet-river.trycloudflare.com'',
               tunnelUrlDiscoveredAt := Val (now example_world)\<rparr>))\<rparr>)]"
    by blast
  have d: "example_doc\<lparr>projects := Some ((projects_or_empty example_doc)
            (''web'' \<mapsto> (project_entry example_doc ''web'')\<lparr>tunnelUrl := Val ''https://quiet-river.trycloudflare.com'',
               tunnelUrlDiscoveredAt := Val (now example_world)\<rparr>))\<rparr>
        = \<lparr>projects = Some [''web'' \<mapsto>
               example_state\<lparr>tunnelUrl := Val ''https://quiet-river.trycloudflare.com'',
                               tunnelUrlDiscoveredAt := Val 1700000003000\<rparr>]\<rparr>"
    by (simp add: f project_entry_def projects_or_empty_def example_doc_def)
  have "feed_stdout ''web''
              [''Requesting new quick tunnel'', ''| https://quiet-river.trycloudflare.com |'',
               ''https://other-name.trycloudflare.com''] False example_world = (Inr True, w')"
    using w by simp
  moreover have "state_file w' = Doc \<lparr>projects = Some [''web'' \<mapsto>
               example_state\<lparr>tunnelUrl := Val ''https://quiet-river.trycloudflare.com'',
                               tunnelUrlDiscoveredAt := Val 1700000003000\<rparr>]\<rparr>"
    using s unfolding d .
  moreover have "saves (trace w') = [\<lparr>projects = Some [''web'' \<mapsto>
               example_state\<lparr>tunnelUrl := Val ''https://quiet-river.trycloudflare.com'',
                               tunnelUrlDiscoveredAt := Val 1700000003000\<rparr>]\<rparr>]"
    using t unfolding d by (simp add: f saves_def)
  ultimately show ?thesis by blast
qed

text \<open>
  Claim C4 says that the first matching chunk causes the URL and the discovery time to
  be written into the runtime state of the project. For the project id \<^verbatim>\<open>__proto__\<close>, which
  the configuration validator accepts, the code does not do that: on the concrete
  installation the stream below ends with \<open>urlCaptured = true\<close> and one save of the state
  file, but the document saved is the document that was there, without an entry for the
  project, and the runtime state of the project still has no \<open>tunnelUrl\<close>. The second
  URL is not stored either, the flag being set.
\<close>

theorem tunnel_url_lost_for_proto_id:
  "match_url ''| https://quiet-river.trycloudflare.com |'' = Some ''https://quiet-river.trycloudflare.com''
   \<and> fst (feed_stdout ''__proto__''
        [''| https://quiet-river.trycloudflare.com |'', ''https://other-name.trycloudflare.com'']
        False example_world) = Inr True
   \<and> state_file (snd (feed_stdout ''__proto__''
        [''| https://quiet-river.trycloudflare.com |'', ''https://other-name.trycloudflare.com'']
        False example_world)) = Doc example_doc
   \<and> saves (trace (snd (feed_stdout ''__proto__''
        [''| https://quiet-river.trycloudflare.com |'', ''https://other-name.trycloudflare.com'']
        False example_world))) = [example_doc]
   \<and> fst (getProjectState ''__proto__'' (snd (feed_stdout ''__proto__''
        [''| https://quiet-river.trycloudflare.com |'', ''https://other-name.trycloudflare.com'']
        False example_world))) = Inr empty_pstate
   \<and> tunnelUrl empty_pstate = Undefined"
proof -
  have e: "logs_writable example_world" "state_writable example_world"
    and f: "trace example_world = []"
    by (simp_all add: example_world_def)
  have pre: "\<forall>c \<in> set []. match_url c = None" by simp
  have no: "projects_or_empty example_doc ''__proto__'' = None"
    by (simp add: projects_or_empty_def example_doc_def)
  have d: "example_doc\<lparr>projects := Some (assign_property (projects_or_empty example_doc) ''__proto__'' x)\<rparr>
        = example_doc" for x
    by (simp add: assign_property_def no) (simp add: projects_or_empty_def example_doc_def)
  from feed_first_match [OF e loadState_example pre match_url_quiet_river,
      of "''__proto__''" "[''https://other-name.trycloudflare.com'']"]
  obtain w' where w: "feed_stdout ''__proto__''
        [''| https://quiet-river.trycloudflare.com |'', ''https://other-name.trycloudflare.com'']
        False example_world = (Inr True, w')"
    and s: "state_file w' = Doc example_doc"
    and t: "trace w' = [SaveCall example_doc]"
    unfolding d f by auto
  have "loadState w' = (Inr example_doc, w')"
    by (rule loadState_cong [OF _ loadState_example]) (simp add: s example_world_def)
  from getProjectState_ok [OF this, of "''__proto__''"]
  have g: "getProjectState ''__proto__'' w' = (Inr empty_pstate, w')"
    by (simp add: project_entry_def no)
  show ?thesis
    using match_url_quiet_river s t g unfolding w
    by (simp add: saves_def empty_pstate_def)
qed

subsection \<open>Reading a log\<close>





subsection \<open>Appending a log line\<close>










subsection \<open>Reading the runtime state\<close>

text \<open>
  Claim C8. When the state file is absent, or holds a document without an entry for the
  id, \<open>getProjectState\<close> returns the empty object, whose six fields are all absent; it
  does not throw and leaves the world as it was.
\<close>

theorem getProjectState_unknown_id:
  assumes "state_file w = NoFile \<or> (\<exists>d. state_file w = Doc d \<and> projects_or_empty d i = None)"
  shows "getProjectState i w = (Inr empty_pstate, w)
     \<and> pid empty_pstate = Undefined \<and> startedAt empty_pstate = Undefined
     \<and> tunnelPid empty_pstate = Undefined \<and> tunnelStartedAt empty_pstate = Undefined
     \<and> tunnelUrl empty_pstate = Undefined \<and> tunnelUrlDiscoveredAt empty_pstate = Undefined"
  using assms
  by (auto simp: getProjectState_def io_bind_def io_ret_def loadState_def read_state_file_def
        io_catch_def project_entry_def projects_or_empty_def empty_pstate_def)

text \<open>An id the document does not mention, and any id when there is no state file.\<close>

theorem getProjectState_unknown_id_witness:
  "state_file example_world = Doc example_doc \<and> projects_or_empty example_doc ''api'' = None
   \<and> getProjectState ''api'' example_world = (Inr empty_pstate, example_world)
   \<and> state_file (example_world\<lparr>state_file := NoFile\<rparr>) = NoFile
   \<and> getProjectState ''web'' (example_world\<lparr>state_file := NoFile\<rparr>)
       = (Inr empty_pstate, example_world\<lparr>state_file := NoFile\<rparr>)"
proof -
  have a: "state_file example_world = Doc example_doc" by (simp add: example_world_def)
  have b: "projects_or_empty example_doc ''api'' = None"
    by (simp add: projects_or_empty_def example_doc_def)
  have c: "state_file (example_world\<lparr>state_file := NoFile\<rparr>) = NoFile" by simp
  from a b have "state_file example_world = NoFile
      \<or> (\<exists>d. state_file example_world = Doc d \<and> projects_or_empty d ''api'' = None)" by blast
  from getProjectState_unknown_id [OF this]
  have 1: "getProjectState ''api'' example_world = (Inr empty_pstate, example_world)" by blast
  from c have "state_file (example_world\<lparr>state_file := NoFile\<rparr>) = NoFile
      \<or> (\<exists>d. state_file (example_world\<lparr>state_file := NoFile\<rparr>) = Doc d \<and> projects_or_empty d ''web'' = None)"
    by blast
  from getProjectState_unknown_id [OF this]
  have 2: "getProjectState ''web'' (example_world\<lparr>state_file := NoFile\<rparr>)
       = (Inr empty_pstate, example_world\<lparr>state_file := NoFile\<rparr>)" by blast
  show ?thesis using a b c 1 2 by blast
qed

subsection \<open>The status object\<close>

text \<open>
  Claim C9. For a project with a non-empty id and a loadable state file,
  \<open>buildProjectStatus\<close> returns a status whose \<open>pid\<close>, \<open>startedAt\<close>, \<open>tunnelPid\<close> and
  \<open>tunnelStartedAt\<close> are the stored values when these are non-zero numbers, and null when
  the stored value is absent, null or 0; no liveness probe enters them. \<open>running\<close> is the
  result of the probe, and \<open>getProjectPid\<close> returns the stored pid only when the probe
  succeeds. So when the stored pid \<open>n\<close> is a non-zero number that cannot be signalled any
  more, the status has \<open>running = false\<close> together with \<open>pid = n\<close>, while
  \<open>getProjectPid\<close> returns null.
\<close>

theorem status_reports_stored_pid:
  assumes idp: "id_p p = Some i" "i \<noteq> []" and st: "loadState w = (Inr st, w)"
  shows "\<exists>s w'. buildProjectStatus p w = (Inr s, w')
     \<and> pid_s s = (case pid (project_entry st i) of
                    Val n \<Rightarrow> if n = 0 then Null else Val n | _ \<Rightarrow> Null)
     \<and> startedAt_s s = (case startedAt (project_entry st i) of
                    Val n \<Rightarrow> if n = 0 then Null else Val n | _ \<Rightarrow> Null)
     \<and> tunnelPid_s s = (case tunnelPid (project_entry st i) of
                    Val n \<Rightarrow> if n = 0 then Null else Val n | _ \<Rightarrow> Null)
     \<and> tunnelStartedAt_s s = (case tunnelStartedAt (project_entry st i) of
                    Val n \<Rightarrow> if n = 0 then Null else Val n | _ \<Rightarrow> Null)
     \<and> running s = (\<exists>n. pid (project_entry st i) = Val n \<and> n \<noteq> 0 \<and> n \<in> signalable w)
     \<and> fst (getProjectPid (Some i) w)
          = Inr (if \<exists>n. pid (project_entry st i) = Val n \<and> n \<noteq> 0 \<and> n \<in> signalable w
                 then pid (project_entry st i) else Null)
     \<and> (\<forall>n. pid (project_entry st i) = Val n \<and> n \<noteq> 0 \<and> n \<notin> signalable w \<longrightarrow>
           running s = False \<and> pid_s s = Val n \<and> fst (getProjectPid (Some i) w) = Inr Null)"
proof -
  have ld: "\<And>w'. state_file w' = state_file w \<Longrightarrow> loadState w' = (Inr st, w')"
    by (rule loadState_cong [OF _ st])
  have c: "num_or_null x = (case x of Val n \<Rightarrow> if n = 0 then Null else Val n | _ \<Rightarrow> Null)" for x
    by (cases x) (simp_all add: num_or_null_def)
  show ?thesis
    using idp
    by (cases "pid (project_entry st i)"; cases "tunnelPid (project_entry st i)")
       (simp_all add: buildProjectStatus_def isProjectRunning_def isTunnelRunning_def getTunnelUrl_def
          getProjectPid_def io_bind_def io_ret_def getProjectState_ok [OF st] getProjectState_ok [OF ld]
          isProcessAlive_eq c Let_def)
qed

text \<open>
  Process 4242 is gone: the status says not running and still carries pid 4242. After a
  stop the stored pid is null, and a stored 0 or an absent field is reported as null too.
\<close>

theorem status_reports_stored_pid_witness:
  "id_p example_project = Some ''web''
   \<and> loadState example_world = (Inr example_doc, example_world)
   \<and> pid (project_entry example_doc ''web'') = Val 4242 \<and> 4242 \<notin> signalable example_world
   \<and> (\<exists>s w'. buildProjectStatus example_project example_world = (Inr s, w')
         \<and> running s = False \<and> pid_s s = Val 4242 \<and> startedAt_s s = Val 1700000000000)
   \<and> fst (getProjectPid (Some ''web'') example_world) = Inr Null
   \<and> loadState example_stopped = (Inr example_stopped_doc, example_stopped)
   \<and> project_entry example_stopped_doc ''web''
        = \<lparr> pid = Null, startedAt = Val 0, tunnelPid = Undefined, tunnelStartedAt = Null,
            tunnelUrl = Undefined, tunnelUrlDiscoveredAt = Undefined \<rparr>
   \<and> (\<exists>s w'. buildProjectStatus example_project example_stopped = (Inr s, w')
         \<and> pid_s s = Null \<and> startedAt_s s = Null \<and> tunnelPid_s s = Null
         \<and> tunnelStartedAt_s s = Null \<and> running s = False)"
proof -
  have h1: "id_p example_project = Some ''web''" by (simp add: example_project_def)
  have h2: "''web'' \<noteq> []" by simp
  have p: "pid (project_entry example_doc ''web'') = Val 4242"
    "startedAt (project_entry example_doc ''web'') = Val 1700000000000"
    by (simp_all add: entry_example example_state_def)
  have s: "4242 \<notin> signalable example_world" by (simp add: example_world_def)
  from status_reports_stored_pid [OF h1 h2 loadState_example]
  obtain st w' where b: "buildProjectStatus example_project example_world = (Inr st, w')"
    and f: "startedAt_s st = (case startedAt (project_entry example_doc ''web'') of
                    Val n \<Rightarrow> if n = 0 then Null else Val n | _ \<Rightarrow> Null)"
    and g: "\<forall>n. pid (project_entry example_doc ''web'') = Val n \<and> n \<noteq> 0 \<and> n \<notin> signalable example_world \<longrightarrow>
           running st = False \<and> pid_s st = Val n \<and> fst (getProjectPid (Some ''web'') example_world) = Inr Null"
    by blast
  from g p s have r: "running st = False" "pid_s st = Val 4242"
    "fst (getProjectPid (Some ''web'') example_world) = Inr Null" by auto
  from f p have "startedAt_s st = Val 1700000000000" by simp
  with b r have 1: "\<exists>s w'. buildProjectStatus example_project example_world = (Inr s, w')
         \<and> running s = False \<and> pid_s s = Val 4242 \<and> startedAt_s s = Val 1700000000000"
    by blast
  have l: "loadState example_stopped = (Inr example_stopped_doc, example_stopped)"
    by (simp add: loadState_def read_state_file_def io_catch_def example_stopped_def example_world_def)
  have q: "project_entry example_stopped_doc ''web''
        = \<lparr> pid = Null, startedAt = Val 0, tunnelPid = Undefined, tunnelStartedAt = Null,
            tunnelUrl = Undefined, tunnelUrlDiscoveredAt = Undefined \<rparr>"
    by (simp add: project_entry_def projects_or_empty_def example_stopped_doc_def)
  from status_reports_stored_pid [OF h1 h2 l]
  obtain st2 w2 where b2: "buildProjectStatus example_project example_stopped = (Inr st2, w2)"
    and f2: "pid_s st2 = (case pid (project_entry example_stopped_doc ''web'') of
                    Val n \<Rightarrow> if n = 0 then Null else Val n | _ \<Rightarrow> Null)"
      "startedAt_s st2 = (case startedAt (project_entry example_stopped_doc ''web'') of
                    Val n \<Rightarrow> if n = 0 then Null else Val n | _ \<Rightarrow> Null)"
      "tunnelPid_s st2 = (case tunnelPid (project_entry example_stopped_doc ''web'') of
                    Val n \<Rightarrow> if n = 0 then Null else Val n | _ \<Rightarrow> Null)"
      "tunnelStartedAt_s st2 = (case tunnelStartedAt (project_entry example_stopped_doc ''web'') of
                    Val n \<Rightarrow> if n = 0 then Null else Val n | _ \<Rightarrow> Null)"
      "running st2 = (\<exists>n. pid (project_entry example_stopped_doc ''web'') = Val n \<and> n \<noteq> 0
                        \<and> n \<in> signalable example_stopped)"
    by blast
  from f2 have "pid_s st2 = Null" "startedAt_s st2 = Null" "tunnelPid_s st2 = Null"
    "tunnelStartedAt_s st2 = Null" "running st2 = False"
    unfolding q by simp_all
  with b2 have 2: "\<exists>s w'. buildProjectStatus example_project example_stopped = (Inr s, w')
         \<and> pid_s s = Null \<and> startedAt_s s = Null \<and> tunnelPid_s s = Null
         \<and> tunnelStartedAt_s s = Null \<and> running s = False"
    by blast
  show ?thesis using h1 loadState_example p(1) s 1 r(3) l q 2 by blast
qed

subsection \<open>Read paths leave the state file alone\<close>

lemma readonly_ret: "readonly (io_ret x)"
  by (simp add: readonly_def io_ret_def)

lemma readonly_throw: "readonly (io_throw e)"
  by (simp add: readonly_def io_throw_def)

lemma readonly_bind:
  assumes "readonly m" "\<And>x. readonly (f x)"
  shows "readonly (io_bind m f)"
  unfolding readonly_def
proof
  fix w
  obtain r w1 where m: "m w = (r, w1)" by (cases "m w")
  from assms(1) m have 1: "state_file w1 = state_file w" "saves (trace w1) = saves (trace w)"
    by (auto simp: readonly_def dest: spec [of _ w])
  show "state_file (snd (io_bind m f w)) = state_file w \<and>
        saves (trace (snd (io_bind m f w))) = saves (trace w)"
  proof (cases r)
    case (Inl e)
    with m 1 show ?thesis by (simp add: io_bind_def)
  next
    case (Inr x)
    from assms(2) [of x] have "state_file (snd (f x w1)) = state_file w1"
      "saves (trace (snd (f x w1))) = saves (trace w1)"
      by (auto simp: readonly_def)
    with Inr m 1 show ?thesis by (simp add: io_bind_def)
  qed
qed

lemma readonly_loadState: "readonly loadState"
  by (auto simp: readonly_def loadState_def read_state_file_def io_catch_def io_ret_def io_throw_def
        split: disk.splits error.splits)

lemma readonly_getProjectState: "readonly (getProjectState i)"
  unfolding getProjectState_def by (intro readonly_bind readonly_loadState readonly_ret)

lemma readonly_isProcessAlive: "readonly (isProcessAlive p)"
  by (auto simp: readonly_def isProcessAlive_eq saves_def split: jsfield.splits)

lemma readonly_isProjectRunning: "readonly (isProjectRunning i)"
  unfolding isProjectRunning_def
  by (auto split: option.splits
        intro!: readonly_bind readonly_throw readonly_getProjectState readonly_isProcessAlive)

lemma readonly_isTunnelRunning: "readonly (isTunnelRunning i)"
  unfolding isTunnelRunning_def
  by (auto split: option.splits
        intro!: readonly_bind readonly_throw readonly_getProjectState readonly_isProcessAlive)

lemma readonly_getProjectPid: "readonly (getProjectPid i)"
  unfolding getProjectPid_def
  by (auto split: option.splits
        intro!: readonly_bind readonly_throw readonly_ret readonly_getProjectState
          readonly_isProcessAlive)

lemma readonly_getTunnelUrl: "readonly (getTunnelUrl i)"
  unfolding getTunnelUrl_def
  by (auto split: option.splits
        intro!: readonly_bind readonly_throw readonly_ret readonly_getProjectState
          readonly_isTunnelRunning)

lemma readonly_buildProjectStatus: "readonly (buildProjectStatus p)"
  unfolding buildProjectStatus_def Let_def
  by (intro readonly_bind readonly_ret readonly_getProjectState readonly_isProjectRunning
        readonly_isTunnelRunning readonly_getTunnelUrl)

lemma readonly_map_io: "(\<And>x. readonly (f x)) \<Longrightarrow> readonly (map_io f xs)"
  by (induction xs) (auto intro!: readonly_bind readonly_ret)

lemma readonly_get_projects: "readonly (get_projects cfg)"
proof -
  have r: "readonly (map_io buildProjectStatus cfg)"
    by (rule readonly_map_io) (rule readonly_buildProjectStatus)
  show ?thesis
    unfolding readonly_def
  proof
    fix w
    from r have "state_file (snd (map_io buildProjectStatus cfg w)) = state_file w"
      "saves (trace (snd (map_io buildProjectStatus cfg w))) = saves (trace w)"
      by (auto simp: readonly_def)
    then show "state_file (snd (get_projects cfg w)) = state_file w \<and>
        saves (trace (snd (get_projects cfg w))) = saves (trace w)"
      by (cases "map_io buildProjectStatus cfg w") (auto simp: get_projects_def split: sum.splits)
  qed
qed

lemma readonly_get_project_by_id: "readonly (get_project_by_id cfg i)"
  unfolding readonly_def
proof
  fix w
  show "state_file (snd (get_project_by_id cfg i w)) = state_file w \<and>
        saves (trace (snd (get_project_by_id cfg i w))) = saves (trace w)"
  proof (cases "getProject cfg i")
    case None
    then show ?thesis by (simp add: get_project_by_id_def)
  next
    case (Some p)
    from readonly_buildProjectStatus [of p]
    have "state_file (snd (buildProjectStatus p w)) = state_file w"
      "saves (trace (snd (buildProjectStatus p w))) = saves (trace w)"
      by (auto simp: readonly_def)
    with Some show ?thesis
      by (cases "buildProjectStatus p w") (auto simp: get_project_by_id_def split: sum.splits)
  qed
qed

text \<open>
  Claim C10. \<open>getProjectState\<close> and every read path built on it (\<open>isProjectRunning\<close>,
  \<open>getProjectPid\<close>, \<open>isTunnelRunning\<close>, \<open>getTunnelUrl\<close>, \<open>buildProjectStatus\<close> and the two
  status endpoints) are read-only: from every world, whatever they return or throw, the
  state file afterwards is the state file before, and no write of it has been issued.
\<close>

theorem read_paths_readonly:
  "readonly (getProjectState i)
   \<and> readonly (isProjectRunning projectId) \<and> readonly (getProjectPid projectId)
   \<and> readonly (isTunnelRunning projectId) \<and> readonly (getTunnelUrl projectId)
   \<and> readonly (buildProjectStatus p)
   \<and> readonly (get_projects cfg) \<and> readonly (get_project_by_id cfg i)"
  by (intro conjI readonly_getProjectState readonly_isProjectRunning readonly_getProjectPid
        readonly_isTunnelRunning readonly_getTunnelUrl readonly_buildProjectStatus
        readonly_get_projects readonly_get_project_by_id)

subsection \<open>Validating the configuration\<close>




lemma spec_port_None [simp]: "\<not> spec_port None" "\<not> nonblank_string None"
  by (simp_all add: spec_port_def nonblank_string_def)












































end
